theory Spec2Isabelle
  imports Complex_Main
begin

section \<open>The mobile audio playback coordinator of BirdNET-Go\<close>

text \<open>
  The development embeds two source units: the store module \<^verbatim>\<open>$lib/stores/mobileAudio\<close>
  (the coordinator: \<^verbatim>\<open>currentlyPlayingId\<close>, \<^verbatim>\<open>isPlaying\<close>, \<^verbatim>\<open>audioElement\<close>,
  \<^verbatim>\<open>registerAudioElement\<close>, \<^verbatim>\<open>playDetection\<close>, \<^verbatim>\<open>stopPlayback\<close>,
  \<^verbatim>\<open>isDetectionPlaying\<close>) and the component \<^verbatim>\<open>MobileAudioPlayer.svelte\<close> (the player component:
  \<^verbatim>\<open>handleCanPlay\<close>, \<^verbatim>\<open>handleEnded\<close>, \<^verbatim>\<open>handleError\<close>, its two effects and
  \<^verbatim>\<open>onDestroy\<close>).

  Detection ids are TypeScript \<^verbatim>\<open>number\<close>s that hold integer database keys; they are
  modelled as \<^typ>\<open>int\<close>, and \<^verbatim>\<open>number | null\<close> as \<^typ>\<open>int option\<close>.
\<close>

subsection \<open>The browser's audio element, as far as the code uses it\<close>

text \<open>
  The module variable \<^verbatim>\<open>audioElement\<close> of the store and the variable \<^verbatim>\<open>audioRef\<close> of
  the player component are references to the same DOM object, so elements live in a heap that is
  indexed by references, and both variables hold an optional reference.
\<close>

type_synonym elem_ref = nat

text \<open>Every method call and attribute write the code issues on an element is recorded.\<close>

datatype call = Play | Pause | Load | SetCurrentTime real

record audio_element =
  paused :: bool
  currentTime :: real
  error :: "nat option"  \<comment> \<open>\<^verbatim>\<open>error?.code\<close>; \<open>None\<close> is the attribute being \<^verbatim>\<open>null\<close>\<close>
  calls :: "call list"

text \<open>The four codes of the DOM interface \<^verbatim>\<open>MediaError\<close>.\<close>

definition MEDIA_ERR_ABORTED :: nat where "MEDIA_ERR_ABORTED = 1"
definition MEDIA_ERR_NETWORK :: nat where "MEDIA_ERR_NETWORK = 2"
definition MEDIA_ERR_DECODE :: nat where "MEDIA_ERR_DECODE = 3"
definition MEDIA_ERR_SRC_NOT_SUPPORTED :: nat where "MEDIA_ERR_SRC_NOT_SUPPORTED = 4"

text \<open>
  What the browser does with a \<^verbatim>\<open>play()\<close> call is not decided by the code; it is an
  input of the model. \<open>Plays\<close>: the element leaves the paused state and the promise is
  fulfilled. \<open>Denied\<close>: the promise is rejected at once (autoplay policy, unsupported
  source) and the element stays as it was. \<open>Interrupted\<close>: the element leaves the paused
  state, and the promise is rejected afterwards.
\<close>

datatype play_outcome = Plays | Denied | Interrupted

fun starts :: "play_outcome \<Rightarrow> bool" where
  "starts Plays = True"
| "starts Denied = False"
| "starts Interrupted = True"

fun rejects :: "play_outcome \<Rightarrow> bool" where
  "rejects Plays = False"
| "rejects Denied = True"
| "rejects Interrupted = True"

definition el_play :: "play_outcome \<Rightarrow> audio_element \<Rightarrow> audio_element" where
  "el_play out e = e\<lparr>paused := (if starts out then False else paused e), calls := calls e @ [Play]\<rparr>"

definition el_pause :: "audio_element \<Rightarrow> audio_element" where
  "el_pause e = e\<lparr>paused := True, calls := calls e @ [Pause]\<rparr>"

definition el_set_currentTime :: "real \<Rightarrow> audio_element \<Rightarrow> audio_element" where
  "el_set_currentTime t e = e\<lparr>currentTime := t, calls := calls e @ [SetCurrentTime t]\<rparr>"

text \<open>
  \<^verbatim>\<open>load()\<close> restarts resource selection; what follows from it reaches the code as
  later events (\<^verbatim>\<open>canplay\<close>, \<^verbatim>\<open>error\<close>).
\<close>

definition el_load :: "audio_element \<Rightarrow> audio_element" where
  "el_load e = e\<lparr>paused := True, currentTime := 0, error := None, calls := calls e @ [Load]\<rparr>"

subsection \<open>The shared state\<close>

datatype level = Debug | Error

text \<open>A log line: the logger's name, the level, the message (the payload object is left out).\<close>

type_synonym log_entry = "string \<times> level \<times> string"

record store =
  currentlyPlayingId :: "int option"
  isPlaying :: bool
  audioElement :: "elem_ref option"
  elements :: "elem_ref \<Rightarrow> audio_element"
  logs :: "log_entry list"

definition logger_debug :: "string \<Rightarrow> string \<Rightarrow> store \<Rightarrow> store" where
  "logger_debug name msg s = s\<lparr>logs := logs s @ [(name, Debug, msg)]\<rparr>"

definition logger_error :: "string \<Rightarrow> string \<Rightarrow> store \<Rightarrow> store" where
  "logger_error name msg s = s\<lparr>logs := logs s @ [(name, Error, msg)]\<rparr>"

subsection \<open>Exceptions\<close>

text \<open>
  The one way the modelled code could throw is a method call or an attribute access on a
  \<^verbatim>\<open>null\<close> reference. A rejected \<^verbatim>\<open>play()\<close> promise is not an exception of the caller:
  it runs the handler given to \<^verbatim>\<open>.catch\<close>.
\<close>

datatype exn = TypeError

definition bind_exn :: "exn + 'a \<Rightarrow> ('a \<Rightarrow> exn + 'b) \<Rightarrow> exn + 'b" where
  "bind_exn m f = (case m of Inl e \<Rightarrow> Inl e | Inr x \<Rightarrow> f x)"

definition read_from :: "elem_ref option \<Rightarrow> (audio_element \<Rightarrow> 'a) \<Rightarrow> store \<Rightarrow> exn + 'a" where
  "read_from r field s = (case r of None \<Rightarrow> Inl TypeError | Some a \<Rightarrow> Inr (field (elements s a)))"

definition invoke_on :: "elem_ref option \<Rightarrow> (audio_element \<Rightarrow> audio_element) \<Rightarrow> store \<Rightarrow> exn + store" where
  "invoke_on r method s =
     (case r of None \<Rightarrow> Inl TypeError
      | Some a \<Rightarrow> Inr (s\<lparr>elements := (elements s)(a := method (elements s a))\<rparr>))"

subsection \<open>The coordinator (\<^verbatim>\<open>mobileAudio\<close>)\<close>

definition initial_store :: "(elem_ref \<Rightarrow> audio_element) \<Rightarrow> store" where
  "initial_store els =
     \<lparr>currentlyPlayingId = None, isPlaying = False, audioElement = None, elements = els, logs = []\<rparr>"

definition registerAudioElement :: "elem_ref option \<Rightarrow> store \<Rightarrow> store" where
  "registerAudioElement element s = s\<lparr>audioElement := element\<rparr>"

text \<open>The handler that \<^verbatim>\<open>playDetection\<close> passes to \<^verbatim>\<open>.catch\<close>.\<close>

definition playDetection_catch :: "store \<Rightarrow> store" where
  "playDetection_catch s = logger_error ''mobile-audio'' ''Failed to resume playback'' s"

text \<open>
  A \<^verbatim>\<open>.catch\<close> handler never runs before the synchronous body has finished; the model
  runs it at the end of the call when the outcome of \<^verbatim>\<open>play()\<close> is a rejection.
\<close>

definition playDetection :: "play_outcome \<Rightarrow> int \<Rightarrow> store \<Rightarrow> exn + store" where
  "playDetection out did s =
     (let current = currentlyPlayingId s in
      if current = Some did \<and> audioElement s \<noteq> None then
        bind_exn (read_from (audioElement s) paused s) (\<lambda>p.
          if p then
            bind_exn (invoke_on (audioElement s) (el_play out) s) (\<lambda>s1.
              let s2 = s1\<lparr>isPlaying := True\<rparr> in
              Inr (if rejects out then playDetection_catch s2 else s2))
          else
            bind_exn (invoke_on (audioElement s) el_pause s) (\<lambda>s1.
              Inr (s1\<lparr>isPlaying := False\<rparr>)))
      else
        Inr ((logger_debug ''mobile-audio'' ''Playing detection'' s)
               \<lparr>currentlyPlayingId := Some did, isPlaying := True\<rparr>))"

definition stopPlayback :: "store \<Rightarrow> exn + store" where
  "stopPlayback s =
     (let s0 = logger_debug ''mobile-audio'' ''Stopping playback'' s in
      bind_exn
        (if audioElement s0 \<noteq> None then
           bind_exn (invoke_on (audioElement s0) el_pause s0)
             (invoke_on (audioElement s0) (el_set_currentTime 0))
         else Inr s0)
        (\<lambda>s1. Inr (s1\<lparr>currentlyPlayingId := None, isPlaying := False\<rparr>)))"

definition isDetectionPlaying :: "int \<Rightarrow> store \<Rightarrow> bool" where
  "isDetectionPlaying did s = (currentlyPlayingId s = Some did)"

subsection \<open>The player component (\<^verbatim>\<open>MobileAudioPlayer\<close>)\<close>

text \<open>
  The two props are optional functions of the parent component. A callback runs in the
  shared state it finds and leaves a shared state behind; it has no access to the
  component's own variables.
\<close>

record player =
  onPlayEnd :: "(store \<Rightarrow> store) option"
  onError :: "(string \<Rightarrow> store \<Rightarrow> store) option"
  audioRef :: "elem_ref option"
  isLoading :: bool  \<comment> \<open>\<^verbatim>\<open>_isLoading\<close>\<close>
  errorText :: "string option"  \<comment> \<open>\<^verbatim>\<open>_error\<close>\<close>

definition call_onPlayEnd :: "(store \<Rightarrow> store) option \<Rightarrow> store \<Rightarrow> store" where
  "call_onPlayEnd cb s = (case cb of None \<Rightarrow> s | Some f \<Rightarrow> f s)"

definition call_onError :: "(string \<Rightarrow> store \<Rightarrow> store) option \<Rightarrow> string \<Rightarrow> store \<Rightarrow> store" where
  "call_onError cb msg s = (case cb of None \<Rightarrow> s | Some f \<Rightarrow> f msg s)"

text \<open>The first effect: \<^verbatim>\<open>registerAudioElement(audioRef)\<close>.\<close>

definition register_effect :: "player \<Rightarrow> store \<Rightarrow> store" where
  "register_effect b s = registerAudioElement (audioRef b) s"

text \<open>The second effect: reload when a detection is selected.\<close>

definition autoplay_effect :: "player \<Rightarrow> store \<Rightarrow> exn + player \<times> store" where
  "autoplay_effect b s =
     (if currentlyPlayingId s \<noteq> None \<and> audioRef b \<noteq> None then
        bind_exn (invoke_on (audioRef b) el_load s) (\<lambda>s1.
          Inr (b\<lparr>isLoading := True, errorText := None\<rparr>, s1))
      else Inr (b, s))"

text \<open>The handler that \<^verbatim>\<open>handleCanPlay\<close> passes to \<^verbatim>\<open>.catch\<close>.\<close>

definition handleCanPlay_catch :: "player \<Rightarrow> store \<Rightarrow> player \<times> store" where
  "handleCanPlay_catch b s =
     (let s0 = logger_error ''mobile-audio-player'' ''Failed to start playback'' s;
          b0 = b\<lparr>errorText := Some ''Failed to play audio''\<rparr>
      in (b0, call_onError (onError b) ''Failed to play audio'' s0))"

definition handleCanPlay :: "play_outcome \<Rightarrow> player \<Rightarrow> store \<Rightarrow> exn + player \<times> store" where
  "handleCanPlay out b s =
     (let b0 = b\<lparr>isLoading := False\<rparr> in
      if audioRef b0 \<noteq> None \<and> currentlyPlayingId s \<noteq> None then
        bind_exn (invoke_on (audioRef b0) (el_play out) s) (\<lambda>s1.
          Inr (if rejects out then handleCanPlay_catch b0 s1 else (b0, s1)))
      else Inr (b0, s))"

definition handleEnded :: "player \<Rightarrow> store \<Rightarrow> exn + player \<times> store" where
  "handleEnded b s =
     (let s0 = logger_debug ''mobile-audio-player'' ''Playback ended'' s in
      bind_exn (stopPlayback s0) (\<lambda>s1.
        Inr (b, call_onPlayEnd (onPlayEnd b) s1)))"

text \<open>The \<^verbatim>\<open>switch\<close> of \<^verbatim>\<open>handleError\<close> over \<^verbatim>\<open>audioRef?.error\<close>.\<close>

definition errorMsg_of :: "nat option \<Rightarrow> string" where
  "errorMsg_of audioError =
     (case audioError of
        None \<Rightarrow> ''Failed to load audio''
      | Some code \<Rightarrow>
          if code = MEDIA_ERR_ABORTED then ''Playback aborted''
          else if code = MEDIA_ERR_NETWORK then ''Network error''
          else if code = MEDIA_ERR_DECODE then ''Audio format not supported''
          else if code = MEDIA_ERR_SRC_NOT_SUPPORTED then ''Audio not available''
          else ''Failed to load audio'')"

definition handleError :: "player \<Rightarrow> store \<Rightarrow> exn + player \<times> store" where
  "handleError b s =
     (let audioError = (case audioRef b of None \<Rightarrow> None | Some a \<Rightarrow> error (elements s a));
          errorMsg = errorMsg_of audioError;
          s0 = logger_error ''mobile-audio-player'' ''Audio error'' s;
          b0 = b\<lparr>errorText := Some errorMsg, isLoading := False\<rparr>;
          s1 = call_onError (onError b) errorMsg s0
      in bind_exn (stopPlayback s1) (\<lambda>s2. Inr (b0, s2)))"

definition onDestroy :: "player \<Rightarrow> store \<Rightarrow> store" where
  "onDestroy b s = registerAudioElement None s"

section \<open>Verification\<close>

subsection \<open>The invariant and the reachable states\<close>

definition playback_inv :: "store \<Rightarrow> bool" where
  "playback_inv s = (isPlaying s \<longrightarrow> currentlyPlayingId s \<noteq> None)"

text \<open>
  Both cells are exported writable stores, so the code of a parent component could write
  them directly. The reachable states are those that come about when the parent's
  callbacks, whatever else they do, keep the invariant.
\<close>

definition callbacks_keep_invariant :: "player \<Rightarrow> bool" where
  "callbacks_keep_invariant b =
     ((\<forall>f. onPlayEnd b = Some f \<longrightarrow> (\<forall>s. playback_inv s \<longrightarrow> playback_inv (f s))) \<and>
      (\<forall>g. onError b = Some g \<longrightarrow> (\<forall>m s. playback_inv s \<longrightarrow> playback_inv (g m s))))"

text \<open>
  One rule for each operation of the coordinator and of the player component, for each
  \<^verbatim>\<open>.catch\<close> handler arriving late, and for the browser changing the elements by itself.
\<close>

inductive reachable :: "store \<Rightarrow> bool" where
  start: "reachable (initial_store els)"
| play: "reachable s \<Longrightarrow> playDetection out did s = Inr s' \<Longrightarrow> reachable s'"
| play_rejected: "reachable s \<Longrightarrow> reachable (playDetection_catch s)"
| stop: "reachable s \<Longrightarrow> stopPlayback s = Inr s' \<Longrightarrow> reachable s'"
| register: "reachable s \<Longrightarrow> reachable (registerAudioElement r s)"
| ended: "reachable s \<Longrightarrow> callbacks_keep_invariant b \<Longrightarrow> handleEnded b s = Inr (b', s')
    \<Longrightarrow> reachable s'"
| failed: "reachable s \<Longrightarrow> handleError b s = Inr (b', s') \<Longrightarrow> reachable s'"
| canplay: "reachable s \<Longrightarrow> callbacks_keep_invariant b \<Longrightarrow> handleCanPlay out b s = Inr (b', s')
    \<Longrightarrow> reachable s'"
| canplay_rejected: "reachable s \<Longrightarrow> callbacks_keep_invariant b \<Longrightarrow> handleCanPlay_catch b s = (b', s')
    \<Longrightarrow> reachable s'"
| mounted: "reachable s \<Longrightarrow> reachable (register_effect b s)"
| selected: "reachable s \<Longrightarrow> autoplay_effect b s = Inr (b', s') \<Longrightarrow> reachable s'"
| destroyed: "reachable s \<Longrightarrow> reachable (onDestroy b s)"
| browser: "reachable s \<Longrightarrow> reachable (s\<lparr>elements := els\<rparr>)"

subsection \<open>Reading a result\<close>

definition store_of :: "exn + player \<times> store \<Rightarrow> exn + store" where
  "store_of r = (case r of Inl e \<Rightarrow> Inl e | Inr (b, s) \<Rightarrow> Inr s)"

definition selection_of :: "exn + store \<Rightarrow> int option option" where
  "selection_of r = (case r of Inl e \<Rightarrow> None | Inr s \<Rightarrow> Some (currentlyPlayingId s))"

definition activity_of :: "exn + store \<Rightarrow> bool option" where
  "activity_of r = (case r of Inl e \<Rightarrow> None | Inr s \<Rightarrow> Some (isPlaying s))"

definition logs_of :: "exn + store \<Rightarrow> log_entry list" where
  "logs_of r = (case r of Inl e \<Rightarrow> [] | Inr s \<Rightarrow> logs s)"

subsection \<open>Concrete states\<close>

definition fresh_element :: audio_element where
  "fresh_element = \<lparr>paused = True, currentTime = 0, error = None, calls = []\<rparr>"

definition rendering_element :: audio_element where
  "rendering_element = \<lparr>paused = False, currentTime = 3, error = None, calls = [Load, Play]\<rparr>"

definition broken_element :: audio_element where
  "broken_element = \<lparr>paused = True, currentTime = 0, error = Some MEDIA_ERR_DECODE, calls = [Load]\<rparr>"

text \<open>Nothing selected, no element registered.\<close>

definition idle_store :: store where
  "idle_store = initial_store (\<lambda>r. fresh_element)"

text \<open>Detection 42 selected, its element registered and not yet started.\<close>

definition loading_store :: store where
  "loading_store =
     \<lparr>currentlyPlayingId = Some 42, isPlaying = True, audioElement = Some 0,
      elements = (\<lambda>r. fresh_element), logs = []\<rparr>"

text \<open>Detection 42 selected and audible.\<close>

definition rendering_store :: store where
  "rendering_store =
     \<lparr>currentlyPlayingId = Some 42, isPlaying = True, audioElement = Some 0,
      elements = (\<lambda>r. rendering_element), logs = []\<rparr>"

text \<open>Detection 42 selected and paused by the user.\<close>

definition paused_store :: store where
  "paused_store =
     \<lparr>currentlyPlayingId = Some 42, isPlaying = False, audioElement = Some 0,
      elements = (\<lambda>r. fresh_element), logs = []\<rparr>"

text \<open>Detection 7 selected and paused by the user.\<close>

definition other_paused_store :: store where
  "other_paused_store =
     \<lparr>currentlyPlayingId = Some 7, isPlaying = False, audioElement = Some 0,
      elements = (\<lambda>r. fresh_element), logs = []\<rparr>"

text \<open>Detection 42 selected, its clip failed to decode.\<close>

definition broken_store :: store where
  "broken_store =
     \<lparr>currentlyPlayingId = Some 42, isPlaying = True, audioElement = Some 0,
      elements = (\<lambda>r. broken_element), logs = []\<rparr>"

text \<open>A parent callback that writes down whether it finds a detection selected.\<close>

definition observe :: "string \<Rightarrow> store \<Rightarrow> store" where
  "observe what s =
     logger_debug ''parent''
       (what @ (if currentlyPlayingId s = None then '' [idle]'' else '' [selected]'')) s"

text \<open>The player as the page mounts it: without callbacks.\<close>

definition silent_player :: player where
  "silent_player =
     \<lparr>onPlayEnd = None, onError = None, audioRef = Some 0, isLoading = True, errorText = None\<rparr>"

definition observing_player :: player where
  "observing_player =
     \<lparr>onPlayEnd = Some (observe ''ended''), onError = Some observe, audioRef = Some 0,
      isLoading = True, errorText = None\<rparr>"

text \<open>
  The store after \<^verbatim>\<open>playDetection(42)\<close>, the end of the clip seen by
  \<open>observing_player\<close>, and \<^verbatim>\<open>playDetection(7)\<close>, starting from \<open>idle_store\<close>.
\<close>

definition replayed_store :: store where
  "replayed_store =
     \<lparr>currentlyPlayingId = Some 7, isPlaying = True, audioElement = None,
      elements = (\<lambda>r. fresh_element),
      logs = [(''mobile-audio'', Debug, ''Playing detection''),
              (''mobile-audio-player'', Debug, ''Playback ended''),
              (''mobile-audio'', Debug, ''Stopping playback''),
              (''parent'', Debug, ''ended [idle]''),
              (''mobile-audio'', Debug, ''Playing detection'')]\<rparr>"

subsection \<open>What each operation returns\<close>

lemma bind_exn_Inr [simp]: "bind_exn (Inr x) f = f x"
  by (simp add: bind_exn_def)

lemma bind_exn_Inl [simp]: "bind_exn (Inl e) f = Inl e"
  by (simp add: bind_exn_def)

lemma invoke_on_Some [simp]:
  "invoke_on (Some a) m s = Inr (s\<lparr>elements := (elements s)(a := m (elements s a))\<rparr>)"
  by (simp add: invoke_on_def)

lemma read_from_Some [simp]: "read_from (Some a) field s = Inr (field (elements s a))"
  by (simp add: read_from_def)

lemma stopPlayback_result:
  "stopPlayback s =
     Inr (s\<lparr>currentlyPlayingId := None, isPlaying := False,
            elements := (case audioElement s of None \<Rightarrow> elements s
               | Some a \<Rightarrow> (elements s)(a := el_set_currentTime 0 (el_pause (elements s a)))),
            logs := logs s @ [(''mobile-audio'', Debug, ''Stopping playback'')]\<rparr>)"
  by (cases "audioElement s") (simp_all add: stopPlayback_def logger_debug_def Let_def)

lemma stopPlayback_idle:
  "stopPlayback s = Inr s' \<Longrightarrow> currentlyPlayingId s' = None \<and> \<not> isPlaying s'"
  by (auto simp add: stopPlayback_result)

lemma stopPlayback_total: "\<exists>s'. stopPlayback s = Inr s'"
  by (simp add: stopPlayback_result)

lemma playDetection_same:
  assumes "currentlyPlayingId s = Some did" and "audioElement s = Some a"
  shows "playDetection out did s =
     Inr (if paused (elements s a)
          then s\<lparr>isPlaying := True, elements := (elements s)(a := el_play out (elements s a)),
                 logs := logs s @ (if rejects out
                   then [(''mobile-audio'', Error, ''Failed to resume playback'')] else [])\<rparr>
          else s\<lparr>isPlaying := False, elements := (elements s)(a := el_pause (elements s a))\<rparr>)"
  using assms by (simp add: playDetection_def playDetection_catch_def logger_error_def Let_def)

lemma playDetection_other:
  assumes "currentlyPlayingId s \<noteq> Some did \<or> audioElement s = None"
  shows "playDetection out did s =
     Inr (s\<lparr>currentlyPlayingId := Some did, isPlaying := True,
            logs := logs s @ [(''mobile-audio'', Debug, ''Playing detection'')]\<rparr>)"
  using assms by (auto simp add: playDetection_def logger_debug_def Let_def)

lemma handleEnded_result:
  "stopPlayback (logger_debug ''mobile-audio-player'' ''Playback ended'' s) = Inr s1 \<Longrightarrow>
   handleEnded b s = Inr (b, call_onPlayEnd (onPlayEnd b) s1)"
  by (simp add: handleEnded_def Let_def)

lemma handleError_result:
  "stopPlayback (call_onError (onError b)
       (errorMsg_of (case audioRef b of None \<Rightarrow> None | Some a \<Rightarrow> error (elements s a)))
       (logger_error ''mobile-audio-player'' ''Audio error'' s)) = Inr s2 \<Longrightarrow>
   handleError b s =
     Inr (b\<lparr>errorText := Some (errorMsg_of
               (case audioRef b of None \<Rightarrow> None | Some a \<Rightarrow> error (elements s a))),
            isLoading := False\<rparr>, s2)"
  by (simp add: handleError_def Let_def)

lemma handleCanPlay_result:
  assumes "audioRef b = Some a" and "currentlyPlayingId s \<noteq> None"
  shows "handleCanPlay out b s =
     Inr (if rejects out
          then handleCanPlay_catch (b\<lparr>isLoading := False\<rparr>)
                 (s\<lparr>elements := (elements s)(a := el_play out (elements s a))\<rparr>)
          else (b\<lparr>isLoading := False\<rparr>,
                s\<lparr>elements := (elements s)(a := el_play out (elements s a))\<rparr>))"
  using assms by (simp add: handleCanPlay_def Let_def)

subsection \<open>Every operation keeps the invariant\<close>

lemma playDetection_inv: "playDetection out did s = Inr s' \<Longrightarrow> playback_inv s'"
proof (cases "currentlyPlayingId s = Some did \<and> audioElement s \<noteq> None")
  case True
  assume r: "playDetection out did s = Inr s'"
  from True obtain a where a: "audioElement s = Some a" by auto
  from True a r playDetection_same [of s did a out] show ?thesis
    by (auto simp add: playback_inv_def split: if_splits)
next
  case False
  assume r: "playDetection out did s = Inr s'"
  from False have "currentlyPlayingId s \<noteq> Some did \<or> audioElement s = None" by simp
  from playDetection_other [OF this, of out] r show ?thesis
    by (auto simp add: playback_inv_def)
qed

lemma logger_error_inv: "playback_inv s \<Longrightarrow> playback_inv (logger_error name msg s)"
  by (simp add: playback_inv_def logger_error_def)

lemma call_onError_inv:
  "callbacks_keep_invariant b \<Longrightarrow> playback_inv s \<Longrightarrow> playback_inv (call_onError (onError b) msg s)"
  by (auto simp add: callbacks_keep_invariant_def call_onError_def split: option.splits)

lemma call_onPlayEnd_inv:
  "callbacks_keep_invariant b \<Longrightarrow> playback_inv s \<Longrightarrow> playback_inv (call_onPlayEnd (onPlayEnd b) s)"
  by (auto simp add: callbacks_keep_invariant_def call_onPlayEnd_def split: option.splits)

lemma handleCanPlay_catch_inv:
  "callbacks_keep_invariant b \<Longrightarrow> playback_inv s \<Longrightarrow> playback_inv (snd (handleCanPlay_catch b s))"
  by (simp add: handleCanPlay_catch_def Let_def call_onError_inv logger_error_inv)

lemma reachable_inv: "reachable s \<Longrightarrow> playback_inv s"
proof (induction rule: reachable.induct)
  case (start els)
  then show ?case by (simp add: playback_inv_def initial_store_def)
next
  case (play s out did s')
  then show ?case by (simp add: playDetection_inv)
next
  case (play_rejected s)
  then show ?case by (simp add: playDetection_catch_def logger_error_inv)
next
  case (stop s s')
  then show ?case using stopPlayback_idle [of s s'] by (simp add: playback_inv_def)
next
  case (register s r)
  then show ?case by (simp add: playback_inv_def registerAudioElement_def)
next
  case (ended s b b' s')
  obtain s1 where s1: "stopPlayback (logger_debug ''mobile-audio-player'' ''Playback ended'' s) = Inr s1"
    using stopPlayback_total by blast
  then have "playback_inv s1"
    using stopPlayback_idle [OF s1] by (simp add: playback_inv_def)
  moreover have "s' = call_onPlayEnd (onPlayEnd b) s1"
    using ended.hyps(3) handleEnded_result [OF s1, of b] by auto
  ultimately show ?case
    using ended.hyps(2) by (simp add: call_onPlayEnd_inv)
next
  case (failed s b b' s')
  then obtain s1 where "stopPlayback s1 = Inr s'"
    by (auto simp add: handleError_def Let_def bind_exn_def split: sum.splits)
  then show ?case using stopPlayback_idle [of s1 s'] by (simp add: playback_inv_def)
next
  case (canplay s b out b' s')
  have touched: "\<And>els. playback_inv (s\<lparr>elements := els\<rparr>)"
    using canplay.IH by (simp add: playback_inv_def)
  have kept: "callbacks_keep_invariant (b\<lparr>isLoading := False\<rparr>)"
    using canplay.hyps(2) by (simp add: callbacks_keep_invariant_def)
  show ?case
  proof (cases "audioRef b")
    case None
    then show ?thesis using canplay by (auto simp add: handleCanPlay_def Let_def)
  next
    case (Some a)
    show ?thesis
    proof (cases "currentlyPlayingId s = None")
      case True
      then show ?thesis using canplay by (auto simp add: handleCanPlay_def Let_def)
    next
      case False
      note sel = this
      let ?s1 = "s\<lparr>elements := (elements s)(a := el_play out (elements s a))\<rparr>"
      show ?thesis
      proof (cases "rejects out")
        case True
        with handleCanPlay_result [OF Some sel, of out] canplay.hyps(3)
        have "handleCanPlay_catch (b\<lparr>isLoading := False\<rparr>) ?s1 = (b', s')" by simp
        then have "s' = snd (handleCanPlay_catch (b\<lparr>isLoading := False\<rparr>) ?s1)" by simp
        then show ?thesis using handleCanPlay_catch_inv [OF kept touched] by simp
      next
        case False
        with handleCanPlay_result [OF Some sel, of out] canplay.hyps(3)
        have "s' = ?s1" by simp
        then show ?thesis using touched by simp
      qed
    qed
  qed
next
  case (canplay_rejected s b b' s')
  then show ?case using handleCanPlay_catch_inv [of b s] by simp
next
  case (mounted s b)
  then show ?case by (simp add: playback_inv_def register_effect_def registerAudioElement_def)
next
  case (selected s b b' s')
  then show ?case
    by (cases "audioRef b") (auto simp add: playback_inv_def autoplay_effect_def split: if_splits)
next
  case (destroyed s b)
  then show ?case by (simp add: playback_inv_def onDestroy_def registerAudioElement_def)
next
  case (browser s els)
  then show ?case by (simp add: playback_inv_def)
qed

lemma observe_inv: "playback_inv s \<Longrightarrow> playback_inv (observe what s)"
  by (simp add: playback_inv_def observe_def logger_debug_def)

lemma observing_player_keeps: "callbacks_keep_invariant observing_player"
  by (simp add: callbacks_keep_invariant_def observing_player_def observe_inv)

section \<open>Properties of the coordinator and of the player\<close>

subsection \<open>C1: activity implies a selection\<close>

text \<open>
  C1. From the initial state (nothing selected, not playing), no state that the
  operations \<^verbatim>\<open>playDetection\<close>, \<^verbatim>\<open>stopPlayback\<close>, \<^verbatim>\<open>registerAudioElement\<close> and the
  player's handlers, effects and \<^verbatim>\<open>.catch\<close> handlers lead to has \<open>isPlaying\<close> true
  while \<open>currentlyPlayingId\<close> is \<open>None\<close>.
\<close>

theorem activity_implies_selection:
  "reachable s \<Longrightarrow> \<not> (isPlaying s \<and> currentlyPlayingId s = None)"
  using reachable_inv [of s] by (simp add: playback_inv_def)

text \<open>
  Witness for C1: play 42, let the clip end under a player with callbacks, play 7. The
  state reached is playing, with 7 selected.
\<close>

theorem activity_implies_selection_witness:
  "reachable replayed_store \<and> isPlaying replayed_store \<and>
   \<not> (isPlaying replayed_store \<and> currentlyPlayingId replayed_store = None)"
proof -
  let ?s1 = "idle_store\<lparr>currentlyPlayingId := Some 42, isPlaying := True,
               logs := [(''mobile-audio'', Debug, ''Playing detection'')]\<rparr>"
  let ?s2 = "idle_store\<lparr>logs := [(''mobile-audio'', Debug, ''Playing detection''),
              (''mobile-audio-player'', Debug, ''Playback ended''),
              (''mobile-audio'', Debug, ''Stopping playback''),
              (''parent'', Debug, ''ended [idle]'')]\<rparr>"
  have "reachable idle_store"
    unfolding idle_store_def by (rule reachable.start)
  moreover have "playDetection Plays 42 idle_store = Inr ?s1"
    by (simp add: playDetection_def idle_store_def initial_store_def logger_debug_def)
  ultimately have r1: "reachable ?s1"
    by (rule reachable.play)
  have "handleEnded observing_player ?s1 = Inr (observing_player, ?s2)"
    by (simp add: handleEnded_def stopPlayback_result idle_store_def initial_store_def
        logger_debug_def observing_player_def call_onPlayEnd_def observe_def)
  with r1 observing_player_keeps have r2: "reachable ?s2"
    by (rule reachable.ended)
  have "playDetection Plays 7 ?s2 = Inr replayed_store"
    by (simp add: playDetection_def idle_store_def initial_store_def logger_debug_def
        replayed_store_def)
  with r2 have r: "reachable replayed_store"
    by (rule reachable.play)
  from activity_implies_selection [OF r] r show ?thesis
    by (simp add: replayed_store_def)
qed

subsection \<open>C2: asking for the selected detection again\<close>

text \<open>
  C2 as stated fails. Detection 7 is selected and paused, its element is registered.
  \<^verbatim>\<open>playDetection(42)\<close> selects 42 and sets the activity; the second
  \<^verbatim>\<open>playDetection(42)\<close> finds the element paused, calls \<^verbatim>\<open>play()\<close> and leaves the
  activity true, where C2 has it false.
\<close>

theorem playDetection_toggle_counterexample:
  "audioElement other_paused_store = Some 0 \<and>
   activity_of (playDetection Plays 42 other_paused_store) = Some True \<and>
   activity_of (bind_exn (playDetection Plays 42 other_paused_store) (playDetection Plays 42))
     = Some True"
  by (simp add: other_paused_store_def fresh_element_def playDetection_def activity_of_def
      logger_debug_def el_play_def)

text \<open>
  C2, amended. With an element registered, and that element not paused when the second
  call is made: after the first \<^verbatim>\<open>playDetection(id)\<close> the activity is true, after the
  second it is false, after the third it is true again, and after each of the three calls
  the selection is \<open>id\<close>. The outcomes \<open>o1\<close>, \<open>o2\<close>, \<open>o3\<close> of the \<^verbatim>\<open>play()\<close> calls
  are arbitrary.
\<close>

theorem playDetection_toggle:
  assumes "audioElement s = Some a"
    and "playDetection o1 did s = Inr s1"
    and "\<not> paused (elements s1 a)"
  shows "\<exists>s2 s3. playDetection o2 did s1 = Inr s2 \<and> playDetection o3 did s2 = Inr s3 \<and>
           isPlaying s1 \<and> \<not> isPlaying s2 \<and> isPlaying s3 \<and>
           currentlyPlayingId s1 = Some did \<and> currentlyPlayingId s2 = Some did \<and>
           currentlyPlayingId s3 = Some did"
proof -
  have first: "isPlaying s1 \<and> currentlyPlayingId s1 = Some did \<and> audioElement s1 = Some a"
  proof (cases "currentlyPlayingId s = Some did")
    case True
    from playDetection_same [OF True assms(1), of o1] assms(2,3) assms(1) True show ?thesis
      by (auto simp add: el_pause_def split: if_splits)
  next
    case False
    then have "currentlyPlayingId s \<noteq> Some did \<or> audioElement s = None" by simp
    from playDetection_other [OF this, of o1] assms(1,2) show ?thesis by auto
  qed
  then have sel1: "currentlyPlayingId s1 = Some did" and el1: "audioElement s1 = Some a"
    by simp_all
  define s2 where
    "s2 = s1\<lparr>isPlaying := False, elements := (elements s1)(a := el_pause (elements s1 a))\<rparr>"
  have second: "playDetection o2 did s1 = Inr s2"
    using playDetection_same [OF sel1 el1, of o2] assms(3) by (simp add: s2_def)
  have sel2: "currentlyPlayingId s2 = Some did" and el2: "audioElement s2 = Some a"
    and p2: "paused (elements s2 a)"
    using sel1 el1 by (simp_all add: s2_def el_pause_def)
  obtain s3 where third: "playDetection o3 did s2 = Inr s3"
    and s3: "isPlaying s3 \<and> currentlyPlayingId s3 = Some did"
    using playDetection_same [OF sel2 el2, of o3] p2 sel2 by simp
  show ?thesis
    using first second third s3 sel2 by (auto simp add: s2_def)
qed

text \<open>
  Witness for C2: detection 42 is selected and paused; the first call resumes it, the
  second pauses it, the third resumes it.
\<close>

theorem playDetection_toggle_witness:
  "audioElement paused_store = Some 0 \<and>
   (\<exists>s1 s2 s3. playDetection Plays 42 paused_store = Inr s1 \<and> \<not> paused (elements s1 0) \<and>
      playDetection Plays 42 s1 = Inr s2 \<and> playDetection Plays 42 s2 = Inr s3 \<and>
      isPlaying s1 \<and> \<not> isPlaying s2 \<and> isPlaying s3 \<and>
      currentlyPlayingId s1 = Some 42 \<and> currentlyPlayingId s2 = Some 42 \<and>
      currentlyPlayingId s3 = Some 42)"
proof -
  have h1: "audioElement paused_store = Some 0"
    by (simp add: paused_store_def)
  obtain s1 where h2: "playDetection Plays 42 paused_store = Inr s1"
    and h3: "\<not> paused (elements s1 0)"
    by (simp add: playDetection_def paused_store_def fresh_element_def el_play_def)
  from playDetection_toggle [OF h1 h2 h3, of Plays Plays] h1 h2 h3 show ?thesis
    by auto
qed

subsection \<open>C3: selecting a detection\<close>

text \<open>
  C3. When the requested id is not the selected one, or no element is registered,
  \<^verbatim>\<open>playDetection(id)\<close> selects \<open>id\<close>, sets the activity, and leaves every element as
  it was (the recorded calls included) and the registration as it was. This covers
  \<^verbatim>\<open>registerAudioElement(null)\<close> followed by \<^verbatim>\<open>playDetection\<close> of any id, the
  selected one included.
\<close>

theorem playDetection_selects:
  "(currentlyPlayingId s \<noteq> Some did \<or> audioElement s = None \<longrightarrow>
      (\<exists>s'. playDetection out did s = Inr s' \<and> currentlyPlayingId s' = Some did \<and> isPlaying s' \<and>
            elements s' = elements s \<and> audioElement s' = audioElement s)) \<and>
   (\<exists>s'. playDetection out did (registerAudioElement None s0) = Inr s' \<and>
         currentlyPlayingId s' = Some did \<and> isPlaying s' \<and>
         elements s' = elements s0 \<and> audioElement s' = None)"
proof (intro conjI impI)
  assume "currentlyPlayingId s \<noteq> Some did \<or> audioElement s = None"
  from playDetection_other [OF this, of out]
  show "\<exists>s'. playDetection out did s = Inr s' \<and> currentlyPlayingId s' = Some did \<and> isPlaying s' \<and>
            elements s' = elements s \<and> audioElement s' = audioElement s"
    by simp
next
  have "currentlyPlayingId (registerAudioElement None s0) \<noteq> Some did \<or>
        audioElement (registerAudioElement None s0) = None"
    by (simp add: registerAudioElement_def)
  from playDetection_other [OF this, of out]
  show "\<exists>s'. playDetection out did (registerAudioElement None s0) = Inr s' \<and>
         currentlyPlayingId s' = Some did \<and> isPlaying s' \<and>
         elements s' = elements s0 \<and> audioElement s' = None"
    by (simp add: registerAudioElement_def)
qed

text \<open>
  Witness for C3: detection 42 is audible and detection 7 is requested; 7 is selected and
  the element of 42 is left as it was.
\<close>

theorem playDetection_selects_witness:
  "currentlyPlayingId rendering_store \<noteq> Some 7 \<and>
   (\<exists>s'. playDetection Plays 7 rendering_store = Inr s' \<and> currentlyPlayingId s' = Some 7 \<and>
      isPlaying s' \<and> elements s' = elements rendering_store \<and> audioElement s' = Some 0)"
proof -
  have h: "currentlyPlayingId rendering_store \<noteq> Some 7 \<or> audioElement rendering_store = None"
    by (simp add: rendering_store_def)
  have "audioElement rendering_store = Some 0" "currentlyPlayingId rendering_store \<noteq> Some 7"
    by (simp_all add: rendering_store_def)
  with playDetection_selects [of rendering_store 7 Plays] h show ?thesis
    by auto
qed

subsection \<open>C4: stopping\<close>

text \<open>
  C4. In every state \<^verbatim>\<open>stopPlayback()\<close> returns normally with nothing selected and the
  activity false. A registered element is paused and its position set to 0, by exactly
  the calls \<^verbatim>\<open>pause()\<close> and \<^verbatim>\<open>currentTime = 0\<close>; the other elements, or all of them
  when none is registered, stay as they were, and so does the registration. Besides the
  two cells only the debug log line is written.
\<close>

theorem stopPlayback_clears:
  "\<exists>s'. stopPlayback s = Inr s' \<and> currentlyPlayingId s' = None \<and> \<not> isPlaying s' \<and>
      audioElement s' = audioElement s \<and>
      logs s' = logs s @ [(''mobile-audio'', Debug, ''Stopping playback'')] \<and>
      elements s' =
        (case audioElement s of
           None \<Rightarrow> elements s
         | Some a \<Rightarrow> (elements s)
             (a := (elements s a)\<lparr>paused := True, currentTime := 0,
                     calls := calls (elements s a) @ [Pause, SetCurrentTime 0]\<rparr>))"
  by (cases "audioElement s")
     (simp_all add: stopPlayback_result el_pause_def el_set_currentTime_def)

subsection \<open>C5: a clip that is ready and cannot be started\<close>

text \<open>
  C5 as stated fails. Detection 42 is selected, the element is ready, the browser denies
  \<^verbatim>\<open>play()\<close>. After \<^verbatim>\<open>handleCanPlay\<close> and its \<^verbatim>\<open>.catch\<close> handler, 42 is still selected
  and the activity is still true: the handler does not call \<^verbatim>\<open>stopPlayback\<close>.
\<close>

theorem handleCanPlay_rejected_counterexample:
  "audioRef silent_player = Some 0 \<and> currentlyPlayingId loading_store = Some 42 \<and>
   rejects Denied \<and>
   selection_of (store_of (handleCanPlay Denied silent_player loading_store)) = Some (Some 42) \<and>
   activity_of (store_of (handleCanPlay Denied silent_player loading_store)) = Some True"
  by (simp add: handleCanPlay_def handleCanPlay_catch_def silent_player_def loading_store_def
      store_of_def selection_of_def activity_of_def call_onError_def logger_error_def Let_def)

text \<open>
  C5, amended. On the ready-to-play signal with a detection selected, when \<^verbatim>\<open>play()\<close>
  is rejected, the player logs the failure, sets its own error text and hands
  \<^verbatim>\<open>'Failed to play audio'\<close> to the optional error callback. That callback is the last
  thing to run: \<^verbatim>\<open>stopPlayback\<close> is not called, and the store the callback receives
  differs from the one at the signal only by the \<^verbatim>\<open>play()\<close> call on the element and
  the log line. Without an error callback the selection and the activity are those at
  the signal.
\<close>

theorem handleCanPlay_rejected:
  assumes "audioRef b = Some a"
    and "currentlyPlayingId s \<noteq> None"
    and "rejects out"
  shows "handleCanPlay out b s =
           Inr (b\<lparr>isLoading := False, errorText := Some ''Failed to play audio''\<rparr>,
                call_onError (onError b) ''Failed to play audio''
                  (s\<lparr>elements := (elements s)
                       (a := (elements s a)
                          \<lparr>paused := (if starts out then False else paused (elements s a)),
                           calls := calls (elements s a) @ [Play]\<rparr>),
                     logs := logs s @
                       [(''mobile-audio-player'', Error, ''Failed to start playback'')]\<rparr>)) \<and>
         selection_of (store_of (handleCanPlay out (b\<lparr>onError := None\<rparr>) s))
           = Some (currentlyPlayingId s) \<and>
         activity_of (store_of (handleCanPlay out (b\<lparr>onError := None\<rparr>) s))
           = Some (isPlaying s)"
proof -
  have "audioRef (b\<lparr>onError := None\<rparr>) = Some a"
    using assms(1) by simp
  from handleCanPlay_result [OF assms(1,2), of out] handleCanPlay_result [OF this assms(2), of out]
    assms(3)
  show ?thesis
    by (simp add: handleCanPlay_catch_def Let_def logger_error_def el_play_def call_onError_def
        store_of_def selection_of_def activity_of_def)
qed

text \<open>
  Witness for C5: the callback is handed the message while 42 is selected, and 42 stays
  selected and active.
\<close>

theorem handleCanPlay_rejected_witness:
  "audioRef observing_player = Some 0 \<and> currentlyPlayingId loading_store \<noteq> None \<and>
   rejects Denied \<and>
   selection_of (store_of (handleCanPlay Denied observing_player loading_store)) = Some (Some 42) \<and>
   activity_of (store_of (handleCanPlay Denied observing_player loading_store)) = Some True \<and>
   logs_of (store_of (handleCanPlay Denied observing_player loading_store)) =
     [(''mobile-audio-player'', Error, ''Failed to start playback''),
      (''parent'', Debug, ''Failed to play audio [selected]'')]"
proof -
  have h: "audioRef observing_player = Some 0" "currentlyPlayingId loading_store \<noteq> None"
    "rejects Denied"
    by (simp_all add: observing_player_def loading_store_def)
  from handleCanPlay_rejected [OF h] h show ?thesis
    by (simp add: store_of_def selection_of_def activity_of_def logs_of_def call_onError_def
        observing_player_def loading_store_def observe_def logger_debug_def)
qed

subsection \<open>C6: a clip that cannot be loaded\<close>

text \<open>
  C6. When the element of the player carries one of the four media error codes,
  \<^verbatim>\<open>handleError\<close> maps the code to its message (aborted: \<^verbatim>\<open>'Playback aborted'\<close>,
  network: \<^verbatim>\<open>'Network error'\<close>, decode: \<^verbatim>\<open>'Audio format not supported'\<close>, source not
  supported: \<^verbatim>\<open>'Audio not available'\<close>), hands the message to the optional error
  callback, then calls \<^verbatim>\<open>stopPlayback\<close>; it ends with nothing selected and the activity
  false.
\<close>

theorem handleError_reports_and_stops:
  assumes "audioRef b = Some a"
    and "error (elements s a) = Some code"
    and "code \<in> {MEDIA_ERR_ABORTED, MEDIA_ERR_NETWORK, MEDIA_ERR_DECODE, MEDIA_ERR_SRC_NOT_SUPPORTED}"
    and "msg = (if code = MEDIA_ERR_ABORTED then ''Playback aborted''
                else if code = MEDIA_ERR_NETWORK then ''Network error''
                else if code = MEDIA_ERR_DECODE then ''Audio format not supported''
                else ''Audio not available'')"
  shows "\<exists>s'. handleError b s = Inr (b\<lparr>errorText := Some msg, isLoading := False\<rparr>, s') \<and>
           stopPlayback (call_onError (onError b) msg
             (logger_error ''mobile-audio-player'' ''Audio error'' s)) = Inr s' \<and>
           currentlyPlayingId s' = None \<and> \<not> isPlaying s'"
proof -
  have m: "errorMsg_of (case audioRef b of None \<Rightarrow> None | Some a \<Rightarrow> error (elements s a)) = msg"
    using assms by (auto simp add: errorMsg_of_def)
  obtain s' where s': "stopPlayback (call_onError (onError b) msg
             (logger_error ''mobile-audio-player'' ''Audio error'' s)) = Inr s'"
    using stopPlayback_total by blast
  from handleError_result [of b s s'] m s' stopPlayback_idle [OF s'] show ?thesis
    by simp
qed

text \<open>
  Witness for C6: detection 42 is selected and its clip fails to decode. The callback
  receives \<^verbatim>\<open>'Audio format not supported'\<close> before the stop; afterwards nothing is selected.
\<close>

theorem handleError_reports_and_stops_witness:
  "audioRef observing_player = Some 0 \<and>
   error (elements broken_store 0) = Some MEDIA_ERR_DECODE \<and>
   currentlyPlayingId broken_store = Some 42 \<and>
   selection_of (store_of (handleError observing_player broken_store)) = Some None \<and>
   activity_of (store_of (handleError observing_player broken_store)) = Some False \<and>
   logs_of (store_of (handleError observing_player broken_store)) =
     [(''mobile-audio-player'', Error, ''Audio error''),
      (''parent'', Debug, ''Audio format not supported [selected]''),
      (''mobile-audio'', Debug, ''Stopping playback'')]"
proof -
  have h: "audioRef observing_player = Some 0"
    "error (elements broken_store 0) = Some MEDIA_ERR_DECODE"
    "MEDIA_ERR_DECODE \<in> {MEDIA_ERR_ABORTED, MEDIA_ERR_NETWORK, MEDIA_ERR_DECODE, MEDIA_ERR_SRC_NOT_SUPPORTED}"
    by (simp_all add: observing_player_def broken_store_def broken_element_def)
  have d: "MEDIA_ERR_DECODE \<noteq> MEDIA_ERR_ABORTED" "MEDIA_ERR_DECODE \<noteq> MEDIA_ERR_NETWORK"
    by (simp_all add: MEDIA_ERR_DECODE_def MEDIA_ERR_ABORTED_def MEDIA_ERR_NETWORK_def)
  from handleError_reports_and_stops [OF h refl] obtain s' where
    r: "handleError observing_player broken_store =
          Inr (observing_player\<lparr>errorText := Some ''Audio format not supported'',
                 isLoading := False\<rparr>, s')"
    and s: "stopPlayback (call_onError (onError observing_player) ''Audio format not supported''
             (logger_error ''mobile-audio-player'' ''Audio error'' broken_store)) = Inr s'"
    and i: "currentlyPlayingId s' = None" "\<not> isPlaying s'"
    using d by auto
  have "logs s' = [(''mobile-audio-player'', Error, ''Audio error''),
      (''parent'', Debug, ''Audio format not supported [selected]''),
      (''mobile-audio'', Debug, ''Stopping playback'')]"
    using s by (auto simp add: stopPlayback_result call_onError_def observing_player_def
        observe_def logger_error_def logger_debug_def broken_store_def)
  with r i h show ?thesis
    by (simp add: store_of_def selection_of_def activity_of_def logs_of_def broken_store_def)
qed

subsection \<open>C7: reading the selection\<close>

text \<open>
  C7. \<^verbatim>\<open>isDetectionPlaying(id)\<close> is true exactly when \<open>id\<close> is the selection, whatever
  the activity. It returns a truth value only: it has no state to hand back.
\<close>

theorem isDetectionPlaying_iff_selected:
  "isDetectionPlaying did s = (currentlyPlayingId s = Some did) \<and>
   isDetectionPlaying did (s\<lparr>isPlaying := activity\<rparr>) = isDetectionPlaying did s"
  by (simp add: isDetectionPlaying_def)

subsection \<open>C8: no exception leaves the coordinator\<close>

text \<open>
  C8. For every id, every state and every outcome of \<^verbatim>\<open>play()\<close>, a rejection included,
  \<^verbatim>\<open>playDetection\<close> and \<^verbatim>\<open>stopPlayback\<close> return a state and never an exception: the
  element is only used behind the test that it is registered.
\<close>

theorem coordinator_never_throws:
  "(\<exists>s'. playDetection out did s = Inr s') \<and> (\<exists>s'. stopPlayback s = Inr s')"
proof
  show "\<exists>s'. playDetection out did s = Inr s'"
  proof (cases "currentlyPlayingId s = Some did \<and> audioElement s \<noteq> None")
    case True
    then obtain a where "audioElement s = Some a" by auto
    with True playDetection_same [of s did a out] show ?thesis by simp
  next
    case False
    then have "currentlyPlayingId s \<noteq> Some did \<or> audioElement s = None" by simp
    from playDetection_other [OF this, of out] show ?thesis by simp
  qed
  show "\<exists>s'. stopPlayback s = Inr s'" by (rule stopPlayback_total)
qed

subsection \<open>C9: a resume that is rejected\<close>

text \<open>
  C9. When the selected detection is requested again, its element is registered and
  paused, and \<^verbatim>\<open>play()\<close> is rejected, \<^verbatim>\<open>playDetection\<close> returns the state it was given
  with the activity true, the \<^verbatim>\<open>play()\<close> call recorded on the element and one error
  line in the log. The selection is kept, the element is neither paused nor rewound (so
  \<^verbatim>\<open>stopPlayback\<close> has not run), and nothing else is written: \<^verbatim>\<open>playDetection\<close> has no
  access to the callbacks of the player.
\<close>

theorem playDetection_resume_rejected:
  assumes "currentlyPlayingId s = Some did"
    and "audioElement s = Some a"
    and "paused (elements s a)"
    and "rejects out"
  shows "playDetection out did s =
           Inr (s\<lparr>isPlaying := True,
                  elements := (elements s)
                    (a := (elements s a)\<lparr>paused := \<not> starts out,
                            calls := calls (elements s a) @ [Play]\<rparr>),
                  logs := logs s @ [(''mobile-audio'', Error, ''Failed to resume playback'')]\<rparr>)"
  using playDetection_same [OF assms(1,2), of out] assms(3,4)
  by (simp add: el_play_def)

text \<open>Witness for C9: resuming the paused detection 42 is denied.\<close>

theorem playDetection_resume_rejected_witness:
  "currentlyPlayingId paused_store = Some 42 \<and> audioElement paused_store = Some 0 \<and>
   paused (elements paused_store 0) \<and> rejects Denied \<and>
   selection_of (playDetection Denied 42 paused_store) = Some (Some 42) \<and>
   activity_of (playDetection Denied 42 paused_store) = Some True \<and>
   logs_of (playDetection Denied 42 paused_store) =
     [(''mobile-audio'', Error, ''Failed to resume playback'')]"
proof -
  have h: "currentlyPlayingId paused_store = Some 42" "audioElement paused_store = Some 0"
    "paused (elements paused_store 0)" "rejects Denied"
    by (simp_all add: paused_store_def fresh_element_def)
  from playDetection_resume_rejected [OF h] h show ?thesis
    by (simp add: selection_of_def activity_of_def logs_of_def paused_store_def)
qed

subsection \<open>C10: the order of stop and callback\<close>

text \<open>
  C10. At the end of a clip \<^verbatim>\<open>handleEnded\<close> stops first and then runs the play-ended
  callback \<open>f\<close>, on a store with nothing selected and the activity false. On a load
  error \<^verbatim>\<open>handleError\<close> runs the error callback \<open>g\<close> first, on a store with the
  selection and the activity it was entered with, and stops afterwards.
\<close>

theorem terminal_handlers_order:
  assumes "onPlayEnd b = Some f" and "onError b = Some g"
    and "msg = errorMsg_of (case audioRef b of None \<Rightarrow> None | Some a \<Rightarrow> error (elements s a))"
    and "s0 = logger_error ''mobile-audio-player'' ''Audio error'' s"
  shows "(\<exists>s1. stopPlayback (logger_debug ''mobile-audio-player'' ''Playback ended'' s) = Inr s1 \<and>
            handleEnded b s = Inr (b, f s1) \<and>
            currentlyPlayingId s1 = None \<and> \<not> isPlaying s1) \<and>
         (\<exists>s2. stopPlayback (g msg s0) = Inr s2 \<and>
            handleError b s = Inr (b\<lparr>errorText := Some msg, isLoading := False\<rparr>, s2) \<and>
            currentlyPlayingId s0 = currentlyPlayingId s \<and> isPlaying s0 = isPlaying s)"
proof
  obtain s1 where s1: "stopPlayback (logger_debug ''mobile-audio-player'' ''Playback ended'' s) = Inr s1"
    using stopPlayback_total by blast
  from handleEnded_result [OF s1, of b] assms(1) stopPlayback_idle [OF s1] s1
  show "\<exists>s1. stopPlayback (logger_debug ''mobile-audio-player'' ''Playback ended'' s) = Inr s1 \<and>
            handleEnded b s = Inr (b, f s1) \<and> currentlyPlayingId s1 = None \<and> \<not> isPlaying s1"
    by (simp add: call_onPlayEnd_def)
next
  obtain s2 where s2: "stopPlayback (g msg s0) = Inr s2"
    using stopPlayback_total by blast
  have "call_onError (onError b) msg s0 = g msg s0"
    using assms(2) by (simp add: call_onError_def)
  with handleError_result [of b s s2] s2 assms(3,4)
  show "\<exists>s2. stopPlayback (g msg s0) = Inr s2 \<and>
            handleError b s = Inr (b\<lparr>errorText := Some msg, isLoading := False\<rparr>, s2) \<and>
            currentlyPlayingId s0 = currentlyPlayingId s \<and> isPlaying s0 = isPlaying s"
    by (simp add: logger_error_def)
qed

text \<open>
  Witness for C10: with detection 42 audible, the play-ended callback notes that it
  finds nothing selected, after the stop; the error callback notes that it finds a
  detection selected, before the stop.
\<close>

theorem terminal_handlers_order_witness:
  "onPlayEnd observing_player = Some (observe ''ended'') \<and>
   onError observing_player = Some observe \<and>
   logs_of (store_of (handleEnded observing_player rendering_store)) =
     [(''mobile-audio-player'', Debug, ''Playback ended''),
      (''mobile-audio'', Debug, ''Stopping playback''),
      (''parent'', Debug, ''ended [idle]'')] \<and>
   logs_of (store_of (handleError observing_player rendering_store)) =
     [(''mobile-audio-player'', Error, ''Audio error''),
      (''parent'', Debug, ''Failed to load audio [selected]''),
      (''mobile-audio'', Debug, ''Stopping playback'')]"
proof -
  have h: "onPlayEnd observing_player = Some (observe ''ended'')"
    "onError observing_player = Some observe"
    by (simp_all add: observing_player_def)
  have m: "errorMsg_of (case audioRef observing_player of None \<Rightarrow> None
             | Some a \<Rightarrow> error (elements rendering_store a)) = ''Failed to load audio''"
    by (simp add: errorMsg_of_def observing_player_def rendering_store_def rendering_element_def)
  from terminal_handlers_order [OF h m [symmetric] refl]
  obtain s1 s2 where
    e1: "stopPlayback (logger_debug ''mobile-audio-player'' ''Playback ended'' rendering_store) = Inr s1"
    and e2: "handleEnded observing_player rendering_store = Inr (observing_player, observe ''ended'' s1)"
    and e3: "currentlyPlayingId s1 = None"
    and f1: "stopPlayback (observe ''Failed to load audio''
               (logger_error ''mobile-audio-player'' ''Audio error'' rendering_store)) = Inr s2"
    and f2: "handleError observing_player rendering_store =
               Inr (observing_player\<lparr>errorText := Some ''Failed to load audio'',
                      isLoading := False\<rparr>, s2)"
    by auto
  have l1: "logs s1 = [(''mobile-audio-player'', Debug, ''Playback ended''),
      (''mobile-audio'', Debug, ''Stopping playback'')]"
    using e1 by (auto simp add: stopPlayback_result logger_debug_def rendering_store_def)
  have l2: "logs s2 = [(''mobile-audio-player'', Error, ''Audio error''),
      (''parent'', Debug, ''Failed to load audio [selected]''),
      (''mobile-audio'', Debug, ''Stopping playback'')]"
    using f1 by (auto simp add: stopPlayback_result logger_debug_def logger_error_def observe_def
        rendering_store_def)
  from h e2 e3 l1 f2 l2 show ?thesis
    by (simp add: store_of_def logs_of_def observe_def logger_debug_def)
qed

end
